theory Spec2Isabelle
  imports Complex_Main
begin

section \<open>JavaScript values and strings\<close>

text \<open>
  The scalar values that occur in plans, selections and dataset records. \<open>JNum\<close> is an
  integral number (one that \<open>String\<close> prints as its decimal digits), \<open>JFrac\<close> any other
  number, such as the literal \<open>0.3\<close>. Strings are lists of characters. \<open>JObject\<close> is a
  value that is no scalar, an object or a function, given with the text \<open>String\<close> prints
  for it: the client does nothing with such a value but print it and test its truth.
\<close>

datatype jsval =
    JUndefined
  | JNull
  | JBool bool
  | JNum int
  | JFrac rat
  | JStr string
  | JObject string

text \<open>Truthiness, as \<open>!v\<close>, \<open>v || d\<close> and \<open>v ? a : b\<close> test it.\<close>

fun truthy :: "jsval \<Rightarrow> bool" where
  "truthy JUndefined = False"
| "truthy JNull = False"
| "truthy (JBool b) = b"
| "truthy (JNum n) = (n \<noteq> 0)"
| "truthy (JFrac q) = (q \<noteq> 0)"
| "truthy (JStr s) = (s \<noteq> [])"
| "truthy (JObject t) = True"

definition digit_char :: "nat \<Rightarrow> char" where
  "digit_char d = ''0123456789'' ! d"

fun nat_str :: "nat \<Rightarrow> string" where
  "nat_str n = (if n < 10 then [digit_char n] else nat_str (n div 10) @ [digit_char (n mod 10)])"

declare nat_str.simps [simp del]

definition int_str :: "int \<Rightarrow> string" where
  "int_str i = (if i < 0 then CHR ''-'' # nat_str (nat (- i)) else nat_str (nat i))"

text \<open>
  \<open>String(v)\<close>, which a template literal applies to each of its holes as well. The
  rendering of a non-integral number is the engine's and is taken as the parameter \<open>fs\<close>.
\<close>

fun js_String :: "(rat \<Rightarrow> string) \<Rightarrow> jsval \<Rightarrow> string" where
  "js_String fs JUndefined = ''undefined''"
| "js_String fs JNull = ''null''"
| "js_String fs (JBool b) = (if b then ''true'' else ''false'')"
| "js_String fs (JNum n) = int_str n"
| "js_String fs (JFrac q) = fs q"
| "js_String fs (JStr s) = s"
| "js_String fs (JObject t) = t"


abbreviation dquote :: char where
  "dquote \<equiv> CHR 0x22"

abbreviation LF :: char where
  "LF \<equiv> CHR 0x0A"

abbreviation CR :: char where
  "CR \<equiv> CHR 0x0D"

section \<open>Export codec: \<open>escapeCsvCell\<close> and \<open>toCsv\<close>\<close>

text \<open>
  \<^verbatim>\<open>const s = v === null || v === undefined ? "" : String(v);\<close>
\<close>

definition cell_text :: "(rat \<Rightarrow> string) \<Rightarrow> jsval \<Rightarrow> string" where
  "cell_text fs v = (if v = JNull \<or> v = JUndefined then [] else js_String fs v)"

text \<open>The regular expression \<^verbatim>\<open>/[",\n\r]/\<close> tested on \<open>s\<close>.\<close>

definition needs_quote :: "string \<Rightarrow> bool" where
  "needs_quote s = list_ex (\<lambda>c. c = dquote \<or> c = CHR '','' \<or> c = LF \<or> c = CR) s"

text \<open>\<^verbatim>\<open>s.replace(/"/g, '""')\<close>\<close>

definition double_quotes :: "string \<Rightarrow> string" where
  "double_quotes s = concat (map (\<lambda>c. if c = dquote then [dquote, dquote] else [c]) s)"

definition escapeCsvCell :: "(rat \<Rightarrow> string) \<Rightarrow> jsval \<Rightarrow> string" where
  "escapeCsvCell fs v =
     (let s = cell_text fs v
      in if needs_quote s then [dquote] @ double_quotes s @ [dquote] else s)"

text \<open>
  A dataset record is an object of scalars, parsed from JSON: its own properties in the
  order \<open>Object.keys\<close> lists them.
\<close>

type_synonym record_obj = "(string \<times> jsval) list"

definition Object_keys :: "record_obj \<Rightarrow> string list" where
  "Object_keys r = map fst r"

text \<open>
  The prototype of every such record is \<open>Object.prototype\<close>. Its members are functions,
  but for \<open>__proto__\<close>, which reads as \<open>Object.prototype\<close> itself. The texts are those
  \<open>String\<close> prints for them under V8; engines differ in the white space of
  \<open>[native code]\<close> only.
\<close>

definition Object_prototype :: record_obj where
  "Object_prototype =
     [(''constructor'', JObject ''function Object() { [native code] }''),
      (''__defineGetter__'', JObject ''function __defineGetter__() { [native code] }''),
      (''__defineSetter__'', JObject ''function __defineSetter__() { [native code] }''),
      (''hasOwnProperty'', JObject ''function hasOwnProperty() { [native code] }''),
      (''__lookupGetter__'', JObject ''function __lookupGetter__() { [native code] }''),
      (''__lookupSetter__'', JObject ''function __lookupSetter__() { [native code] }''),
      (''isPrototypeOf'', JObject ''function isPrototypeOf() { [native code] }''),
      (''propertyIsEnumerable'', JObject ''function propertyIsEnumerable() { [native code] }''),
      (''toString'', JObject ''function toString() { [native code] }''),
      (''valueOf'', JObject ''function valueOf() { [native code] }''),
      (''__proto__'', JObject ''[object Object]''),
      (''toLocaleString'', JObject ''function toLocaleString() { [native code] }'')]"

text \<open>
  The property read \<open>r[h]\<close> (and \<open>r.h\<close>): the record's own property, else the member of
  \<open>Object.prototype\<close> of that name, else \<open>undefined\<close>.
\<close>

definition get_prop :: "record_obj \<Rightarrow> string \<Rightarrow> jsval" where
  "get_prop r h =
     (case map_of r h of
        Some v \<Rightarrow> v
      | None \<Rightarrow> (case map_of Object_prototype h of Some v \<Rightarrow> v | None \<Rightarrow> JUndefined))"




section \<open>Session state of \<open>App\<close>\<close>

record plan_obj =
  chart_type :: jsval
  year_from :: jsval
  year_to :: jsval
  doctype :: jsval
  field_level :: jsval
  field_score_min :: jsval
  top_k :: jsval
  color :: jsval
  mark :: jsval
  compare :: jsval
  compare_year_from :: jsval
  compare_year_to :: jsval

text \<open>A rendering specification is opaque to the client; an instance is a Vega view.\<close>

datatype vspec = VegaLiteSpec string

type_synonym inst = nat

datatype role = user | assistant

record chat_message =
  role :: role
  msg_text :: string

text \<open>
  The parsed body \<open>j\<close> of a reply. A field is \<open>None\<close> when it is absent (or otherwise
  falsy: the client only tests truthiness). An empty array is truthy, so \<open>Some []\<close> is a
  present dataset.
\<close>

record response =
  j_answer :: "string option"
  j_vegaLiteSpec :: "vspec option"
  j_data :: "record_obj list option"
  j_plan :: "plan_obj option"

record app_state =
  spec :: "vspec option"
  err :: string
  data :: "record_obj list option"
  plan :: "plan_obj option"
  view :: "inst option"
  selected :: "record_obj option"
  input :: string
  messages :: "chat_message list"
  sending :: bool
  focus_calls :: nat

text \<open>The values given to \<open>useState\<close>.\<close>

definition app_init :: app_state where
  "app_init =
     \<lparr>spec = None, err = [], data = None, plan = None, view = None, selected = None,
      input = ''show me the number of papers by year from 2020 to 2024'',
      messages = [], sending = False, focus_calls = 0\<rparr>"

text \<open>\<^verbatim>\<open>inputRef.current?.focus()\<close>\<close>

definition focus :: "app_state \<Rightarrow> app_state" where
  "focus s = s\<lparr>focus_calls := Suc (focus_calls s)\<rparr>"

subsection \<open>\<open>post\<close>\<close>

text \<open>
  What \<open>fetch\<close> and \<open>r.json()\<close> can hand back: \<open>fetch\<close> rejects, or there is a reply with
  a status and a body that parses (\<open>Inr\<close>) or does not (\<open>Inl\<close>, the message of the error).
  \<open>r.ok\<close> holds for the statuses 200 to 299.
\<close>

datatype fetch_result =
    FetchRejected string
  | HttpReply nat "string + response"

text \<open>
  The outcome of \<open>post\<close> after its \<open>await\<close>: \<open>Inl m\<close> is a thrown error whose
  \<^verbatim>\<open>String(e?.message || e)\<close> is \<open>m\<close>.
\<close>

definition post_result :: "fetch_result \<Rightarrow> string + response" where
  "post_result r =
     (case r of
        FetchRejected m \<Rightarrow> Inl m
      | HttpReply status body \<Rightarrow>
          if \<not> (200 \<le> status \<and> status \<le> 299) then Inl (''HTTP '' @ nat_str status)
          else body)"

text \<open>The part of \<open>post\<close> that runs before its \<open>await\<close>: \<^verbatim>\<open>setErr("")\<close>.\<close>

definition post_begin :: "app_state \<Rightarrow> app_state" where
  "post_begin s = s\<lparr>err := []\<rparr>"

subsection \<open>Quick loads\<close>

definition loadYearChart_begin :: "app_state \<Rightarrow> app_state" where
  "loadYearChart_begin s = post_begin s"

definition loadYearChart_settle :: "fetch_result \<Rightarrow> app_state \<Rightarrow> app_state" where
  "loadYearChart_settle r s =
     focus
       (case post_result r of
          Inr j \<Rightarrow>
            s\<lparr>spec := j_vegaLiteSpec j,
              data := (case j_data j of Some d \<Rightarrow> Some d | None \<Rightarrow> None),
              selected := None,
              plan := Some
                \<lparr>chart_type = JStr ''papers_by_year'',
                 year_from = JNum 2020,
                 year_to = JNum 2024,
                 doctype = JNull,
                 field_level = JNum 1,
                 field_score_min = JFrac (3 / 10),
                 top_k = JNum 25,
                 color = JNull,
                 mark = JStr ''bar'',
                 compare = JBool False,
                 compare_year_from = JNull,
                 compare_year_to = JNull\<rparr>\<rparr>
        | Inl e \<Rightarrow> s\<lparr>err := e\<rparr>)"

definition loadFieldChart_begin :: "app_state \<Rightarrow> app_state" where
  "loadFieldChart_begin s = post_begin s"

definition loadFieldChart_settle :: "fetch_result \<Rightarrow> app_state \<Rightarrow> app_state" where
  "loadFieldChart_settle r s =
     focus
       (case post_result r of
          Inr j \<Rightarrow>
            s\<lparr>spec := j_vegaLiteSpec j,
              data := (case j_data j of Some d \<Rightarrow> Some d | None \<Rightarrow> None),
              selected := None,
              plan := Some
                \<lparr>chart_type = JStr ''papers_by_field'',
                 year_from = JNum 2020,
                 year_to = JNum 2024,
                 doctype = JNull,
                 field_level = JNum 1,
                 field_score_min = JFrac (3 / 10),
                 top_k = JNum 25,
                 color = JNull,
                 mark = JStr ''bar'',
                 compare = JBool False,
                 compare_year_from = JNull,
                 compare_year_to = JNull\<rparr>\<rparr>
        | Inl e \<Rightarrow> s\<lparr>err := e\<rparr>)"

subsection \<open>\<open>send\<close>\<close>

text \<open>\<open>String.prototype.trim\<close>: white space and line terminators, among the characters modelled.\<close>

definition js_ws :: "char \<Rightarrow> bool" where
  "js_ws c = (c \<in> set [CHR 0x09, CHR 0x0A, CHR 0x0B, CHR 0x0C, CHR 0x0D, CHR 0x20, CHR 0xA0])"

definition trim :: "string \<Rightarrow> string" where
  "trim s = rev (dropWhile js_ws (rev (dropWhile js_ws s)))"

text \<open>The body of the request to \<open>/api/chat\<close>: \<^verbatim>\<open>{ message: text, prev_plan: plan }\<close>.\<close>

record chat_request =
  message :: string
  prev_plan :: "plan_obj option"

text \<open>
  \<open>send\<close> up to its \<open>await\<close>: the guard, the three updates before \<open>try\<close>, and the
  synchronous part of \<open>post\<close>. The second component is the request issued, if any.
\<close>

definition send_begin :: "app_state \<Rightarrow> app_state \<times> chat_request option" where
  "send_begin s =
     (let text = trim (input s)
      in if text = [] \<or> sending s then (s, None)
         else (post_begin
                 (s\<lparr>sending := True,
                    messages := messages s @ [\<lparr>role = user, msg_text = text\<rparr>],
                    input := []\<rparr>),
               Some \<lparr>message = text, prev_plan = plan s\<rparr>))"

text \<open>
  The same part of \<open>send\<close>, told apart by what it reads and what it writes. \<open>input\<close>,
  \<open>sending\<close> and \<open>plan\<close> are constants of the render that made this \<open>send\<close>: the state
  \<open>snap\<close> of that render. The updates go to the latest state \<open>s\<close>; the one to
  \<open>messages\<close> is a function of the latest value. \<open>send_begin s\<close> is \<open>send_call s s\<close>: a
  call from a render that is up to date.
\<close>

definition send_call :: "app_state \<Rightarrow> app_state \<Rightarrow> app_state \<times> chat_request option" where
  "send_call snap s =
     (let text = trim (input snap)
      in if text = [] \<or> sending snap then (s, None)
         else (post_begin
                 (s\<lparr>sending := True,
                    messages := messages s @ [\<lparr>role = user, msg_text = text\<rparr>],
                    input := []\<rparr>),
               Some \<lparr>message = text, prev_plan = plan snap\<rparr>))"

text \<open>\<open>send\<close> from the point where the \<open>await\<close> settles: \<open>try\<close>, \<open>catch\<close> and \<open>finally\<close>.\<close>

definition send_settle :: "fetch_result \<Rightarrow> app_state \<Rightarrow> app_state" where
  "send_settle r s =
     focus
       ((case post_result r of
           Inr j \<Rightarrow>
             (let s1 = s\<lparr>messages := messages s @
                         [\<lparr>role = assistant,
                           msg_text = (case j_answer j of
                                         None \<Rightarrow> ''OK''
                                       | Some a \<Rightarrow> if a = [] then ''OK'' else a)\<rparr>]\<rparr>;
                  s2 = (case j_vegaLiteSpec j of Some v \<Rightarrow> s1\<lparr>spec := Some v\<rparr> | None \<Rightarrow> s1);
                  s3 = (case j_data j of Some d \<Rightarrow> s2\<lparr>data := Some d\<rparr> | None \<Rightarrow> s2);
                  s4 = (case j_plan j of Some p \<Rightarrow> s3\<lparr>plan := Some p\<rparr> | None \<Rightarrow> s3)
              in s4\<lparr>selected := None\<rparr>)
         | Inl e \<Rightarrow> s\<lparr>err := e\<rparr>)
        \<lparr>sending := False\<rparr>)"

text \<open>\<open>send\<close> as a whole, when nothing else happens between the request and its reply.\<close>

definition send :: "fetch_result \<Rightarrow> app_state \<Rightarrow> app_state" where
  "send r s =
     (case send_begin s of
        (s1, None) \<Rightarrow> s1
      | (s1, Some req) \<Rightarrow> send_settle r s1)"

subsection \<open>Selection\<close>

text \<open>The listener on the signal \<open>pick\<close>; \<open>active\<close> is the flag of the effect that attached it.\<close>

definition pick_handler :: "bool \<Rightarrow> record_obj option \<Rightarrow> app_state \<Rightarrow> app_state" where
  "pick_handler active v s =
     (if \<not> active then s
      else case v of
             None \<Rightarrow> s\<lparr>selected := None\<rparr>
           | Some m \<Rightarrow> s\<lparr>selected := Some m\<rparr>)"

definition selectionSummary :: "app_state \<Rightarrow> record_obj option" where
  "selectionSummary s =
     (case selected s of
        None \<Rightarrow> None
      | Some sel \<Rightarrow> if length (Object_keys sel) = 0 then None else Some sel)"

text \<open>
  The message \<open>quickAskFromSelection\<close> builds, or \<open>None\<close> where it returns without one.
\<close>

definition followup_message ::
  "(rat \<Rightarrow> string) \<Rightarrow> record_obj option \<Rightarrow> plan_obj option \<Rightarrow> string option" where
  "followup_message fs summary pl =
     (case summary of
        None \<Rightarrow> None
      | Some sel \<Rightarrow>
     (case pl of
        None \<Rightarrow> None
      | Some p \<Rightarrow>
          if chart_type p = JStr ''papers_by_year'' then
            (let year = get_prop sel ''year'';
                 group = get_prop sel ''group''
             in Some
                 (if truthy group then
                    ''show me the number of papers by year from '' @ js_String fs year
                    @ '' to '' @ js_String fs year
                    @ '' and compare '' @ js_String fs (year_from p) @ ''-''
                    @ js_String fs (year_to p)
                    @ '' vs '' @ js_String fs (compare_year_from p) @ ''-''
                    @ js_String fs (compare_year_to p)
                  else
                    ''show me the number of papers by year from '' @ js_String fs year
                    @ '' to '' @ js_String fs year))
          else if chart_type p = JStr ''papers_by_field'' then
            (let field = get_prop sel ''field''
             in if \<not> truthy field then None
                else Some
                  (if truthy (compare p) then
                     ''show me papers by field from '' @ js_String fs (year_from p)
                     @ '' to '' @ js_String fs (year_to p)
                     @ '' and compare '' @ js_String fs (year_from p) @ ''-''
                     @ js_String fs (year_to p)
                     @ '' vs '' @ js_String fs (compare_year_from p) @ ''-''
                     @ js_String fs (compare_year_to p)
                     @ '', top_k '' @ js_String fs (top_k p)
                     @ '', field_score_min '' @ js_String fs (field_score_min p)
                     @ '', field_level '' @ js_String fs (field_level p)
                   else
                     ''show me papers by field from '' @ js_String fs (year_from p)
                     @ '' to '' @ js_String fs (year_to p)
                     @ '', top_k '' @ js_String fs (top_k p)
                     @ '', field_score_min '' @ js_String fs (field_score_min p)
                     @ '', field_level '' @ js_String fs (field_level p)))
          else None))"

definition quickAskFromSelection :: "(rat \<Rightarrow> string) \<Rightarrow> app_state \<Rightarrow> app_state" where
  "quickAskFromSelection fs s =
     (case followup_message fs (selectionSummary s) (plan s) of
        None \<Rightarrow> s
      | Some msg \<Rightarrow> focus (s\<lparr>input := msg\<rparr>))"

text \<open>
  \<open>quickAskFromSelection\<close> called from the render with state \<open>snap\<close>, whose
  \<open>selectionSummary\<close> and \<open>plan\<close> it reads, when the latest state is \<open>s\<close>.
\<close>

definition quickAsk_call :: "(rat \<Rightarrow> string) \<Rightarrow> app_state \<Rightarrow> app_state \<Rightarrow> app_state" where
  "quickAsk_call fs snap s =
     (case followup_message fs (selectionSummary snap) (plan snap) of
        None \<Rightarrow> s
      | Some msg \<Rightarrow> focus (s\<lparr>input := msg\<rparr>))"

subsection \<open>The session as a sequence of events\<close>

text \<open>
  The handlers run one at a time, each to its next \<open>await\<close>. \<open>app\<close> is the latest state,
  with every update made so far. \<open>rendered\<close> is the state of the last render: the
  handlers React has handed out were made by that render, and what \<open>send\<close> and
  \<open>quickAskFromSelection\<close> read of the state they read there. React renders again at some
  point after an update (\<open>Rendered\<close>); until it does, \<open>rendered\<close> lags behind \<open>app\<close>.
  \<open>chat_pending\<close> holds the requests to \<open>/api/chat\<close> that have been issued and not yet
  settled; a reply can only settle a request that is pending. The replies to the quick
  loads may arrive at any time.
\<close>

record session =
  app :: app_state
  chat_pending :: "chat_request list"
  rendered :: app_state


datatype event =
    Typed string
  | SendPressed
  | ChatSettled fetch_result
  | YearPressed
  | YearSettled fetch_result
  | FieldPressed
  | FieldSettled fetch_result
  | Picked "record_obj option"
  | ClearPressed
  | FollowUpPressed
  | ViewPublished "inst option"
  | Rendered

fun step :: "(rat \<Rightarrow> string) \<Rightarrow> event \<Rightarrow> session \<Rightarrow> session" where
  "step fs (Typed t) c = c\<lparr>app := (app c)\<lparr>input := t\<rparr>\<rparr>"
| "step fs SendPressed c =
     (case send_call (rendered c) (app c) of
        (s1, None) \<Rightarrow> c\<lparr>app := s1\<rparr>
      | (s1, Some req) \<Rightarrow> c\<lparr>app := s1, chat_pending := chat_pending c @ [req]\<rparr>)"
| "step fs (ChatSettled r) c =
     (case chat_pending c of
        [] \<Rightarrow> c
      | req # rest \<Rightarrow> c\<lparr>app := send_settle r (app c), chat_pending := rest\<rparr>)"
| "step fs YearPressed c = c\<lparr>app := loadYearChart_begin (app c)\<rparr>"
| "step fs (YearSettled r) c = c\<lparr>app := loadYearChart_settle r (app c)\<rparr>"
| "step fs FieldPressed c = c\<lparr>app := loadFieldChart_begin (app c)\<rparr>"
| "step fs (FieldSettled r) c = c\<lparr>app := loadFieldChart_settle r (app c)\<rparr>"
| "step fs (Picked v) c = c\<lparr>app := pick_handler (view (app c) \<noteq> None) v (app c)\<rparr>"
| "step fs ClearPressed c = c\<lparr>app := (app c)\<lparr>selected := None\<rparr>\<rparr>"
| "step fs FollowUpPressed c = c\<lparr>app := quickAsk_call fs (rendered c) (app c)\<rparr>"
| "step fs (ViewPublished v) c = c\<lparr>app := (app c)\<lparr>view := v\<rparr>\<rparr>"
| "step fs Rendered c = c\<lparr>rendered := app c\<rparr>"




section \<open>Render session: the effect of \<open>VegaView\<close>\<close>

text \<open>
  The state the effect works on. Each run of the effect has its own variable \<open>canceled\<close>;
  the runs are numbered, and \<open>canceled g\<close> is the variable of run \<open>g\<close>. \<open>cur\<close> is the run
  whose cleanup React still holds, \<open>awaiting\<close> the runs suspended at \<open>await vegaEmbed\<close>.
  \<open>published\<close> is the argument of the latest call of \<open>onView\<close> (the state \<open>view\<close> of
  \<open>App\<close>), \<open>onView_log\<close> all of them in order, \<open>finalized\<close> the instances whose
  \<open>finalize\<close> was called, in order.
\<close>

record vega =
  viewRef :: "inst option"
  canceled :: "nat \<Rightarrow> bool"
  runs :: nat
  cur :: "nat option"
  awaiting :: "nat list"
  published :: "inst option"
  onView_log :: "inst option list"
  finalized :: "inst list"

definition vega_init :: vega where
  "vega_init =
     \<lparr>viewRef = None, canceled = (\<lambda>g. False), runs = 0, cur = None, awaiting = [],
      published = None, onView_log = [], finalized = []\<rparr>"

definition onView :: "inst option \<Rightarrow> vega \<Rightarrow> vega" where
  "onView i v = v\<lparr>published := i, onView_log := onView_log v @ [i]\<rparr>"

text \<open>
  \<^verbatim>\<open>if (viewRef.current) { try { viewRef.current.finalize(); } catch {} viewRef.current = null; }\<close>
\<close>

definition finalize_current :: "vega \<Rightarrow> vega" where
  "finalize_current v =
     (case viewRef v of
        None \<Rightarrow> v
      | Some i \<Rightarrow> v\<lparr>finalized := finalized v @ [i], viewRef := None\<rparr>)"

text \<open>
  The effect body for a new \<open>spec\<close> (\<open>None\<close>: a falsy \<open>spec\<close> or no container): a fresh
  \<open>canceled = false\<close>, then \<open>run()\<close> up to \<open>await vegaEmbed\<close>.
\<close>

definition effect_run :: "vspec option \<Rightarrow> vega \<Rightarrow> vega" where
  "effect_run sp v =
     (let g = runs v;
          v1 = v\<lparr>runs := Suc g, cur := Some g, canceled := (canceled v)(g := False)\<rparr>
      in case sp of
           None \<Rightarrow> v1
         | Some x \<Rightarrow> (finalize_current v1)\<lparr>awaiting := awaiting v1 @ [g]\<rparr>)"

text \<open>The function the effect returns, for run \<open>g\<close>.\<close>

definition effect_cleanup :: "nat \<Rightarrow> vega \<Rightarrow> vega" where
  "effect_cleanup g v = finalize_current (onView None (v\<lparr>canceled := (canceled v)(g := True)\<rparr>))"

text \<open>
  \<open>run()\<close> of run \<open>g\<close> after \<open>vegaEmbed\<close> resolved; \<open>i\<close> is \<^verbatim>\<open>result?.view\<close>.
\<close>

definition run_resolved :: "nat \<Rightarrow> inst option \<Rightarrow> vega \<Rightarrow> vega" where
  "run_resolved g i v =
     (if canceled v g then
        (case i of None \<Rightarrow> v | Some x \<Rightarrow> v\<lparr>finalized := finalized v @ [x]\<rparr>)
      else onView i (v\<lparr>viewRef := i\<rparr>))"

text \<open>\<^verbatim>\<open>run().catch(() => { if (!canceled) onView?.(null); })\<close>\<close>

definition run_rejected :: "nat \<Rightarrow> vega \<Rightarrow> vega" where
  "run_rejected g v = (if \<not> canceled v g then onView None v else v)"

text \<open>
  What happens to the component: React runs the effect for a changed \<open>spec\<close> (after the
  cleanup of the run before it), unmounts it, or a pending \<open>vegaEmbed\<close> settles.
\<close>

datatype vevent =
    Mount "vspec option"
  | Unmount
  | Resolved nat "inst option"
  | Rejected nat

fun vstep :: "vevent \<Rightarrow> vega \<Rightarrow> vega" where
  "vstep (Mount sp) v =
     effect_run sp (case cur v of None \<Rightarrow> v | Some g \<Rightarrow> effect_cleanup g v)"
| "vstep Unmount v =
     (case cur v of None \<Rightarrow> v | Some g \<Rightarrow> (effect_cleanup g v)\<lparr>cur := None\<rparr>)"
| "vstep (Resolved g i) v =
     (if g \<in> set (awaiting v) then run_resolved g i (v\<lparr>awaiting := removeAll g (awaiting v)\<rparr>)
      else v)"
| "vstep (Rejected g) v =
     (if g \<in> set (awaiting v) then run_rejected g (v\<lparr>awaiting := removeAll g (awaiting v)\<rparr>)
      else v)"

fun vrun :: "vevent list \<Rightarrow> vega \<Rightarrow> vega" where
  "vrun [] v = v"
| "vrun (e # es) v = vrun es (vstep e v)"

text \<open>The instances that the events of a list construct.\<close>

fun constructs :: "vevent \<Rightarrow> inst option" where
  "constructs (Resolved g i) = i"
| "constructs e = None"

section \<open>Invariants\<close>


text \<open>
  Every run of the effect but the current one has been cancelled, the current one has
  not, only runs that started are suspended, and \<open>published\<close> is the last value logged.
\<close>

definition vega_inv :: "vega \<Rightarrow> bool" where
  "vega_inv v =
     ((\<forall>g. g < runs v \<and> cur v \<noteq> Some g \<longrightarrow> canceled v g) \<and>
      (\<forall>g. cur v = Some g \<longrightarrow> g < runs v \<and> \<not> canceled v g) \<and>
      (\<forall>g \<in> set (awaiting v). g < runs v) \<and>
      published v = (if onView_log v = [] then None else last (onView_log v)))"

section \<open>Properties of the export codec\<close>



lemma escape_undefined: "escapeCsvCell fs JUndefined = []"
  by (simp add: escapeCsvCell_def cell_text_def needs_quote_def)

lemma escape_null: "escapeCsvCell fs JNull = []"
  by (simp add: escapeCsvCell_def cell_text_def needs_quote_def)


lemma needs_quote_iff:
  "needs_quote s = (CHR '','' \<in> set s \<or> dquote \<in> set s \<or> LF \<in> set s \<or> CR \<in> set s)"
  by (auto simp add: needs_quote_def list_ex_iff)










text \<open>
  C6. \<open>null\<close> and \<open>undefined\<close> encode as the empty cell. Any other value \<open>v\<close> encodes as
  \<open>String(v)\<close>, put between double quotes with every embedded double quote doubled
  exactly when \<open>String(v)\<close> contains a comma, a double quote, a line feed or a carriage
  return, and unchanged otherwise. The value \<open>a,"b"\<close>, line feed, \<open>c\<close> encodes as
  \<open>"a,""b""\<close>, line feed, \<open>c"\<close>.
\<close>

theorem csv_cell_escaping:
  "escapeCsvCell fs JNull = [] \<and> escapeCsvCell fs JUndefined = [] \<and>
   (v \<noteq> JNull \<and> v \<noteq> JUndefined \<longrightarrow>
      escapeCsvCell fs v =
        (if CHR '','' \<in> set (js_String fs v) \<or> dquote \<in> set (js_String fs v) \<or>
            LF \<in> set (js_String fs v) \<or> CR \<in> set (js_String fs v)
         then [dquote] @ double_quotes (js_String fs v) @ [dquote]
         else js_String fs v)) \<and>
   double_quotes [] = [] \<and>
   (\<forall>c s. double_quotes (c # s) =
      (if c = dquote then [dquote, dquote] else [c]) @ double_quotes s) \<and>
   escapeCsvCell fs (JStr (''a,'' @ [dquote] @ ''b'' @ [dquote, LF] @ ''c'')) =
     [dquote] @ ''a,'' @ [dquote, dquote] @ ''b'' @ [dquote, dquote, LF] @ ''c'' @ [dquote]"
proof -
  have rule: "v \<noteq> JNull \<and> v \<noteq> JUndefined \<longrightarrow>
      escapeCsvCell fs v =
        (if CHR '','' \<in> set (js_String fs v) \<or> dquote \<in> set (js_String fs v) \<or>
            LF \<in> set (js_String fs v) \<or> CR \<in> set (js_String fs v)
         then [dquote] @ double_quotes (js_String fs v) @ [dquote]
         else js_String fs v)"
    by (simp add: escapeCsvCell_def cell_text_def needs_quote_iff)
  have dq: "double_quotes [] = []"
    "\<forall>c s. double_quotes (c # s) =
       (if c = dquote then [dquote, dquote] else [c]) @ double_quotes s"
    by (simp_all add: double_quotes_def)
  have example:
    "escapeCsvCell fs (JStr (''a,'' @ [dquote] @ ''b'' @ [dquote, LF] @ ''c'')) =
       [dquote] @ ''a,'' @ [dquote, dquote] @ ''b'' @ [dquote, dquote, LF] @ ''c'' @ [dquote]"
    by (simp add: escapeCsvCell_def cell_text_def needs_quote_def double_quotes_def)
  show ?thesis using escape_null escape_undefined rule dq example by blast
qed

theorem csv_cell_escaping_witness:
  "escapeCsvCell (\<lambda>q. []) (JStr ''x,y'') = [dquote] @ ''x,y'' @ [dquote] \<and>
   escapeCsvCell (\<lambda>q. []) (JNum 2020) = ''2020''"
proof -
  have "escapeCsvCell (\<lambda>q. []) (JStr ''x,y'') =
      (if CHR '','' \<in> set (js_String (\<lambda>q. []) (JStr ''x,y'')) \<or>
          dquote \<in> set (js_String (\<lambda>q. []) (JStr ''x,y'')) \<or>
          LF \<in> set (js_String (\<lambda>q. []) (JStr ''x,y'')) \<or>
          CR \<in> set (js_String (\<lambda>q. []) (JStr ''x,y''))
       then [dquote] @ double_quotes (js_String (\<lambda>q. []) (JStr ''x,y'')) @ [dquote]
       else js_String (\<lambda>q. []) (JStr ''x,y''))"
    using csv_cell_escaping [of "\<lambda>q. []" "JStr ''x,y''"] by blast
  moreover have "escapeCsvCell (\<lambda>q. []) (JNum 2020) =
      (if CHR '','' \<in> set (js_String (\<lambda>q. []) (JNum 2020)) \<or>
          dquote \<in> set (js_String (\<lambda>q. []) (JNum 2020)) \<or>
          LF \<in> set (js_String (\<lambda>q. []) (JNum 2020)) \<or>
          CR \<in> set (js_String (\<lambda>q. []) (JNum 2020))
       then [dquote] @ double_quotes (js_String (\<lambda>q. []) (JNum 2020)) @ [dquote]
       else js_String (\<lambda>q. []) (JNum 2020))"
    using csv_cell_escaping [of "\<lambda>q. []" "JNum 2020"] by blast
  ultimately show ?thesis
    by (simp add: double_quotes_def int_str_def nat_str.simps digit_char_def)
qed

section \<open>Properties of the conversation and plan state\<close>

lemma focus_fields [simp]:
  "spec (focus s) = spec s" "err (focus s) = err s" "data (focus s) = data s"
  "plan (focus s) = plan s" "view (focus s) = view s" "selected (focus s) = selected s"
  "input (focus s) = input s" "messages (focus s) = messages s" "sending (focus s) = sending s"
  by (simp_all add: focus_def)

lemma send_begin_rejects:
  "trim (input s) = [] \<or> sending s \<Longrightarrow> send_begin s = (s, None)"
  by (auto simp add: send_begin_def Let_def)

lemma send_begin_accepts:
  "trim (input s) \<noteq> [] \<Longrightarrow> \<not> sending s \<Longrightarrow>
     send_begin s =
       (s\<lparr>sending := True,
          messages := messages s @ [\<lparr>role = user, msg_text = trim (input s)\<rparr>],
          input := [], err := []\<rparr>,
        Some \<lparr>message = trim (input s), prev_plan = plan s\<rparr>)"
  by (simp add: send_begin_def post_begin_def Let_def)

lemma send_settle_failure:
  "post_result r = Inl e \<Longrightarrow>
     send_settle r s = s\<lparr>err := e, sending := False, focus_calls := Suc (focus_calls s)\<rparr>"
  by (simp add: send_settle_def focus_def)

lemma trim_init:
  "trim (input app_init) = ''show me the number of papers by year from 2020 to 2024''"
  by (simp add: app_init_def trim_def js_ws_def)

lemma init_accepts: "trim (input app_init) \<noteq> []" "\<not> sending app_init"
  by (simp_all add: trim_init) (simp add: app_init_def)

lemma post_500: "post_result (HttpReply 500 body) = Inl ''HTTP 500''"
  by (simp add: post_result_def nat_str.simps digit_char_def)

lemma post_200: "post_result (HttpReply 200 (Inr j)) = Inr j"
  by (simp add: post_result_def)

text \<open>
  C1, as the specification states it, fails: \<open>send\<close> appends the user's message to the
  turn history before the request is made, so a submission that fails leaves the
  history one entry longer. From the initial state, a reply with status 500:
\<close>

theorem send_failure_history_counterexample:
  "post_result (HttpReply 500 (Inl [])) = Inl ''HTTP 500'' \<and>
   messages (send (HttpReply 500 (Inl [])) app_init) \<noteq> messages app_init"
proof -
  have "messages (send (HttpReply 500 (Inl [])) app_init) =
          messages app_init @ [\<lparr>role = user, msg_text = trim (input app_init)\<rparr>]"
    by (simp add: send_def send_begin_accepts [OF init_accepts] send_settle_failure [OF post_500])
  then show ?thesis by (simp add: post_500)
qed

text \<open>
  C1, amended. For every accepted chat submission that fails (\<open>fetch\<close> rejects, the status
  is not 2xx, or the body does not parse), \<open>send\<close> surfaces the error in \<open>err\<close>, leaves
  plan, rendering specification, dataset and selection exactly as they were before the
  call, clears the in-flight flag, and changes the turn history only by the user's
  message that was appended at submission: no assistant entry is added.
\<close>

theorem send_failure_frame:
  assumes "post_result r = Inl e" and "trim (input s) \<noteq> []" and "\<not> sending s"
  shows "err (send r s) = e \<and> plan (send r s) = plan s \<and> spec (send r s) = spec s \<and>
         data (send r s) = data s \<and> selected (send r s) = selected s \<and>
         messages (send r s) = messages s @ [\<lparr>role = user, msg_text = trim (input s)\<rparr>] \<and>
         \<not> sending (send r s)"
  using assms by (simp add: send_def send_begin_accepts send_settle_failure)

theorem send_failure_frame_witness:
  "messages (send (HttpReply 500 (Inl [])) app_init) =
     [\<lparr>role = user, msg_text = ''show me the number of papers by year from 2020 to 2024''\<rparr>] \<and>
   err (send (HttpReply 500 (Inl [])) app_init) = ''HTTP 500'' \<and>
   plan (send (HttpReply 500 (Inl [])) app_init) = None"
  using send_failure_frame [OF post_500 init_accepts, of "Inl []"]
  by (simp add: trim_init) (simp add: app_init_def)

text \<open>
  C4. Every successful \<open>loadYearChart\<close> installs the plan with \<open>chart_type\<close>
  \<open>papers_by_year\<close>, years 2020 to 2024, \<open>field_level\<close> 1, \<open>field_score_min\<close> 0.3, \<open>top_k\<close>
  25, \<open>mark\<close> \<open>bar\<close>, \<open>compare\<close> false and both compare bounds (and \<open>doctype\<close>, \<open>color\<close>)
  null, whatever the reply holds, a plan of its own included; \<open>loadFieldChart\<close> does the
  same with \<open>chart_type\<close> \<open>papers_by_field\<close>.
\<close>

theorem quick_load_plan:
  assumes "post_result r = Inr j"
  shows "plan (loadYearChart_settle r s) = Some
           \<lparr>chart_type = JStr ''papers_by_year'', year_from = JNum 2020, year_to = JNum 2024,
            doctype = JNull, field_level = JNum 1, field_score_min = JFrac (3 / 10),
            top_k = JNum 25, color = JNull, mark = JStr ''bar'', compare = JBool False,
            compare_year_from = JNull, compare_year_to = JNull\<rparr> \<and>
         plan (loadFieldChart_settle r s) = Some
           \<lparr>chart_type = JStr ''papers_by_field'', year_from = JNum 2020, year_to = JNum 2024,
            doctype = JNull, field_level = JNum 1, field_score_min = JFrac (3 / 10),
            top_k = JNum 25, color = JNull, mark = JStr ''bar'', compare = JBool False,
            compare_year_from = JNull, compare_year_to = JNull\<rparr>"
  using assms by (simp add: loadYearChart_settle_def loadFieldChart_settle_def)

theorem quick_load_plan_witness:
  "chart_type (the (plan (loadYearChart_settle
      (HttpReply 200 (Inr \<lparr>j_answer = None, j_vegaLiteSpec = Some (VegaLiteSpec ''{}''),
         j_data = None,
         j_plan = Some \<lparr>chart_type = JStr ''papers_by_field'', year_from = JNum 1999,
            year_to = JNum 2001, doctype = JNull, field_level = JNum 2,
            field_score_min = JFrac (1 / 2), top_k = JNum 5, color = JStr ''purple'',
            mark = JStr ''line'', compare = JBool True, compare_year_from = JNum 1990,
            compare_year_to = JNum 1995\<rparr>\<rparr>)) app_init))) = JStr ''papers_by_year'' \<and>
   top_k (the (plan (loadFieldChart_settle
      (HttpReply 200 (Inr \<lparr>j_answer = None, j_vegaLiteSpec = Some (VegaLiteSpec ''{}''),
         j_data = None,
         j_plan = Some \<lparr>chart_type = JStr ''papers_by_field'', year_from = JNum 1999,
            year_to = JNum 2001, doctype = JNull, field_level = JNum 2,
            field_score_min = JFrac (1 / 2), top_k = JNum 5, color = JStr ''purple'',
            mark = JStr ''line'', compare = JBool True, compare_year_from = JNum 1990,
            compare_year_to = JNum 1995\<rparr>\<rparr>)) app_init))) = JNum 25"
  using quick_load_plan [OF post_200, of _ app_init] by simp

text \<open>
  C7. After a successful chat submission and after a successful quick load (by year or
  by field) the selection is none, whatever it was before: the state \<open>selected\<close> is
  \<open>null\<close>, and so is the selection \<open>selectionSummary\<close> derives from it.
\<close>

theorem selection_cleared:
  assumes "post_result r = Inr j"
  shows "selected (send_settle r s) = None \<and> selectionSummary (send_settle r s) = None \<and>
         selected (loadYearChart_settle r s) = None \<and>
         selectionSummary (loadYearChart_settle r s) = None \<and>
         selected (loadFieldChart_settle r s) = None \<and>
         selectionSummary (loadFieldChart_settle r s) = None"
  using assms
  by (simp add: send_settle_def loadYearChart_settle_def loadFieldChart_settle_def
      selectionSummary_def Let_def split: option.split)

theorem selection_cleared_witness:
  "selectionSummary (app_init\<lparr>selected := Some [(''year'', JNum 2021)]\<rparr>) =
     Some [(''year'', JNum 2021)] \<and>
   selectionSummary (send_settle
      (HttpReply 200 (Inr \<lparr>j_answer = Some ''done'', j_vegaLiteSpec = None, j_data = None,
         j_plan = None\<rparr>))
      (app_init\<lparr>selected := Some [(''year'', JNum 2021)]\<rparr>)) = None \<and>
   selectionSummary (loadYearChart_settle
      (HttpReply 200 (Inr \<lparr>j_answer = Some ''done'', j_vegaLiteSpec = None, j_data = None,
         j_plan = None\<rparr>))
      (app_init\<lparr>selected := Some [(''year'', JNum 2021)]\<rparr>)) = None"
  using selection_cleared [OF post_200, of _ "app_init\<lparr>selected := Some [(''year'', JNum 2021)]\<rparr>"]
  by (simp add: selectionSummary_def Object_keys_def)

text \<open>
  C10. When the reply to a successful quick load has no \<open>data\<close> field, the dataset
  becomes \<open>null\<close>; when the reply to a successful chat submission has none, the dataset
  stays what it was.
\<close>

theorem absent_data:
  assumes "post_result r = Inr j" and "j_data j = None"
  shows "data (loadYearChart_settle r s) = None \<and> data (loadFieldChart_settle r s) = None \<and>
         data (send_settle r s) = data s"
  using assms
  by (simp add: send_settle_def loadYearChart_settle_def loadFieldChart_settle_def
      Let_def split: option.split)

theorem absent_data_witness:
  "data (loadYearChart_settle
      (HttpReply 200 (Inr \<lparr>j_answer = None, j_vegaLiteSpec = Some (VegaLiteSpec ''{}''),
         j_data = None, j_plan = None\<rparr>))
      (app_init\<lparr>data := Some [[(''year'', JNum 2020)]]\<rparr>)) = None \<and>
   data (send_settle
      (HttpReply 200 (Inr \<lparr>j_answer = None, j_vegaLiteSpec = Some (VegaLiteSpec ''{}''),
         j_data = None, j_plan = None\<rparr>))
      (app_init\<lparr>data := Some [[(''year'', JNum 2020)]]\<rparr>)) = Some [[(''year'', JNum 2020)]]"
  using absent_data [OF post_200, of _ "app_init\<lparr>data := Some [[(''year'', JNum 2020)]]\<rparr>"]
  by simp

section \<open>Properties of the selection channel and the translator\<close>

text \<open>
  C9. On an emission that reaches the attached listener, the selection as the rest of the
  client sees it (\<open>selectionSummary\<close>) is none when the payload is absent or is a mapping
  with no keys, and is the payload mapping otherwise. The listener stores the payload and
  \<open>selectionSummary\<close> maps the empty mapping to none.
\<close>

theorem pick_normalised:
  "selectionSummary (pick_handler True v s) =
     (case v of None \<Rightarrow> None | Some m \<Rightarrow> if m = [] then None else Some m) \<and>
   selectionSummary (pick_handler True (Some []) s) = None \<and>
   (view (app c) \<noteq> None \<longrightarrow>
      selectionSummary (app (step fs (Picked v) c)) =
        (case v of None \<Rightarrow> None | Some m \<Rightarrow> if m = [] then None else Some m))"
  by (simp add: selectionSummary_def pick_handler_def Object_keys_def split: option.split)

theorem pick_normalised_witness:
  "selectionSummary (app (step (\<lambda>q. []) (Picked (Some []))
      \<lparr>app = app_init\<lparr>view := Some 1, selected := Some [(''year'', JNum 2021)]\<rparr>,
       chat_pending = [], rendered = app_init\<rparr>)) = None \<and>
   selectionSummary (app (step (\<lambda>q. []) (Picked (Some [(''field'', JStr ''Physics'')]))
      \<lparr>app = app_init\<lparr>view := Some 1\<rparr>, chat_pending = [], rendered = app_init\<rparr>)) =
     Some [(''field'', JStr ''Physics'')]"
  using
    pick_normalised [of "Some []" _
      "\<lparr>app = app_init\<lparr>view := Some 1, selected := Some [(''year'', JNum 2021)]\<rparr>,
        chat_pending = [], rendered = app_init\<rparr>" "\<lambda>q. []"]
    pick_normalised [of "Some [(''field'', JStr ''Physics'')]" _
      "\<lparr>app = app_init\<lparr>view := Some 1\<rparr>, chat_pending = [], rendered = app_init\<rparr>" "\<lambda>q. []"]
  by simp

text \<open>
  C8. \<open>quickAskFromSelection\<close> builds no message, and leaves the state (the input with
  it) as it is, when the selection is none or the plan is absent, and when the plan's
  \<open>chart_type\<close> is \<open>papers_by_field\<close> and the selection has no \<open>field\<close> attribute. For the
  selection \<open>{group: "A"}\<close> and a plan with \<open>chart_type\<close> \<open>papers_by_field\<close> there is no
  message.
\<close>

theorem translate_null:
  "followup_message fs None pl = None \<and> followup_message fs summary None = None \<and>
   (selectionSummary s = None \<or> plan s = None \<longrightarrow> quickAskFromSelection fs s = s) \<and>
   (chart_type p = JStr ''papers_by_field'' \<and> map_of sel ''field'' = None \<longrightarrow>
      followup_message fs (Some sel) (Some p) = None \<and>
      (selectionSummary s = Some sel \<and> plan s = Some p \<longrightarrow> quickAskFromSelection fs s = s)) \<and>
   (chart_type p = JStr ''papers_by_field'' \<longrightarrow>
      followup_message fs (Some [(''group'', JStr ''A'')]) (Some p) = None)"
  by (auto simp add: followup_message_def quickAskFromSelection_def get_prop_def
      Object_prototype_def split: option.split)

theorem translate_null_witness:
  "followup_message (\<lambda>q. ''0.3'') (Some [(''group'', JStr ''A'')])
     (Some \<lparr>chart_type = JStr ''papers_by_field'', year_from = JNum 2020, year_to = JNum 2024,
        doctype = JNull, field_level = JNum 1, field_score_min = JFrac (3 / 10),
        top_k = JNum 25, color = JNull, mark = JStr ''bar'', compare = JBool False,
        compare_year_from = JNull, compare_year_to = JNull\<rparr>) = None \<and>
   quickAskFromSelection (\<lambda>q. ''0.3'') (app_init\<lparr>selected := Some [(''group'', JStr ''A'')]\<rparr>) =
     app_init\<lparr>selected := Some [(''group'', JStr ''A'')]\<rparr>"
  using
    translate_null [where fs = "\<lambda>q. ''0.3''" and s = "app_init\<lparr>selected := Some [(''group'', JStr ''A'')]\<rparr>"
      and p = "\<lparr>chart_type = JStr ''papers_by_field'', year_from = JNum 2020, year_to = JNum 2024,
        doctype = JNull, field_level = JNum 1, field_score_min = JFrac (3 / 10),
        top_k = JNum 25, color = JNull, mark = JStr ''bar'', compare = JBool False,
        compare_year_from = JNull, compare_year_to = JNull\<rparr>"]
  by (simp add: app_init_def)

text \<open>With a \<open>field\<close> attribute the same plan does give a message.\<close>

lemma followup_message_field_example:
  "followup_message (\<lambda>q. ''0.3'') (Some [(''field'', JStr ''Physics'')])
     (Some \<lparr>chart_type = JStr ''papers_by_field'', year_from = JNum 2020, year_to = JNum 2024,
        doctype = JNull, field_level = JNum 1, field_score_min = JFrac (3 / 10),
        top_k = JNum 25, color = JNull, mark = JStr ''bar'', compare = JBool False,
        compare_year_from = JNull, compare_year_to = JNull\<rparr>) =
   Some ''show me papers by field from 2020 to 2024, top_k 25, field_score_min 0.3, field_level 1''"
  by (simp add: followup_message_def get_prop_def Object_prototype_def int_str_def
      nat_str.simps digit_char_def)

section \<open>Single flight\<close>



lemma send_call_up_to_date: "send_call s s = send_begin s"
  by (simp add: send_call_def send_begin_def)

lemma quickAsk_call_up_to_date: "quickAsk_call fs s s = quickAskFromSelection fs s"
  by (simp add: quickAsk_call_def quickAskFromSelection_def)

text \<open>A call of \<open>send\<close> that directly follows a render is up to date.\<close>

lemma rendered_is_fresh:
  "sending (rendered (step fs Rendered c)) = sending (app (step fs Rendered c))"
  by simp

lemma sending_send_settle [simp]: "\<not> sending (send_settle r s)"
  by (simp add: send_settle_def)

lemma sending_handlers [simp]:
  "sending (loadYearChart_begin s) = sending s"
  "sending (loadYearChart_settle r s) = sending s"
  "sending (loadFieldChart_begin s) = sending s"
  "sending (loadFieldChart_settle r s) = sending s"
  "sending (pick_handler a v s) = sending s"
  "sending (quickAskFromSelection fs s) = sending s"
  "sending (quickAsk_call fs snap s) = sending s"
  by (simp_all add: loadYearChart_begin_def loadYearChart_settle_def loadFieldChart_begin_def
      loadFieldChart_settle_def pick_handler_def quickAskFromSelection_def quickAsk_call_def
      post_begin_def split: sum.split option.split)










section \<open>Last mount wins\<close>

lemma finalize_current_fields [simp]:
  "canceled (finalize_current v) = canceled v" "runs (finalize_current v) = runs v"
  "cur (finalize_current v) = cur v" "awaiting (finalize_current v) = awaiting v"
  "published (finalize_current v) = published v"
  "onView_log (finalize_current v) = onView_log v"
  by (simp_all add: finalize_current_def split: option.split)

lemma onView_fields [simp]:
  "canceled (onView i v) = canceled v" "runs (onView i v) = runs v"
  "cur (onView i v) = cur v" "awaiting (onView i v) = awaiting v"
  "published (onView i v) = i" "onView_log (onView i v) = onView_log v @ [i]"
  "viewRef (onView i v) = viewRef v" "finalized (onView i v) = finalized v"
  by (simp_all add: onView_def)

lemma effect_cleanup_fields [simp]:
  "canceled (effect_cleanup g v) = (canceled v)(g := True)" "runs (effect_cleanup g v) = runs v"
  "cur (effect_cleanup g v) = cur v" "awaiting (effect_cleanup g v) = awaiting v"
  "published (effect_cleanup g v) = None"
  "onView_log (effect_cleanup g v) = onView_log v @ [None]"
  by (simp_all add: effect_cleanup_def)

lemma effect_run_fields [simp]:
  "canceled (effect_run sp v) = (canceled v)(runs v := False)"
  "runs (effect_run sp v) = Suc (runs v)"
  "cur (effect_run sp v) = Some (runs v)"
  "published (effect_run sp v) = published v"
  "onView_log (effect_run sp v) = onView_log v"
  by (auto simp add: effect_run_def Let_def split: option.split)

lemma effect_run_awaiting:
  "g \<in> set (awaiting (effect_run sp v)) \<Longrightarrow> g = runs v \<or> g \<in> set (awaiting v)"
  by (auto simp add: effect_run_def Let_def split: option.splits)

lemma vega_inv_init: "vega_inv vega_init"
  by (simp add: vega_inv_def vega_init_def)

lemma vega_inv_step: "vega_inv v \<Longrightarrow> vega_inv (vstep e v)"
proof (cases e)
  case (Mount sp)
  assume i: "vega_inv v"
  show ?thesis
  proof (cases "cur v")
    case None
    then show ?thesis using i Mount
      by (auto simp add: vega_inv_def less_Suc_eq dest: effect_run_awaiting)
  next
    case (Some g)
    then show ?thesis using i Mount
      by (auto simp add: vega_inv_def less_Suc_eq dest: effect_run_awaiting)
  qed
next
  case Unmount
  assume "vega_inv v"
  then show ?thesis using Unmount
    by (cases "cur v") (auto simp add: vega_inv_def)
next
  case (Resolved g i)
  assume "vega_inv v"
  then show ?thesis using Resolved
    by (auto simp add: vega_inv_def run_resolved_def split: option.split)
next
  case (Rejected g)
  assume "vega_inv v"
  then show ?thesis using Rejected
    by (auto simp add: vega_inv_def run_rejected_def)
qed

lemma vega_inv_run: "vega_inv v \<Longrightarrow> vega_inv (vrun es v)"
  by (induction es arbitrary: v) (simp_all add: vega_inv_step)

lemma log_step:
  "Some i \<in> set (onView_log (vstep e v)) \<Longrightarrow>
     Some i \<in> set (onView_log v) \<or> constructs e = Some i"
  by (cases e) (auto simp add: run_resolved_def run_rejected_def split: option.splits if_splits)

lemma log_run:
  "Some i \<in> set (onView_log (vrun es v)) \<Longrightarrow>
     Some i \<in> set (onView_log v) \<or> Some i \<in> constructs ` set es"
proof (induction es arbitrary: v)
  case Nil
  then show ?case by simp
next
  case (Cons e es)
  from Cons.IH [of "vstep e v"] Cons.prems
  have "Some i \<in> set (onView_log (vstep e v)) \<or> Some i \<in> constructs ` set es" by simp
  then show ?case using log_step [of i e v] by auto
qed

lemma published_in_log:
  "vega_inv v \<Longrightarrow> published v = Some i \<Longrightarrow> Some i \<in> set (onView_log v)"
  by (auto simp add: vega_inv_def split: if_splits)

lemma stale_resolved:
  "canceled v g \<Longrightarrow> g \<in> set (awaiting v) \<Longrightarrow>
     vstep (Resolved g (Some i)) v =
       v\<lparr>awaiting := removeAll g (awaiting v), finalized := finalized v @ [i]\<rparr>"
  by (simp add: run_resolved_def)

lemma current_resolved:
  "\<not> canceled v g \<Longrightarrow> g \<in> set (awaiting v) \<Longrightarrow>
     published (vstep (Resolved g i) v) = i \<and> viewRef (vstep (Resolved g i) v) = i"
  by (simp add: run_resolved_def onView_def)

lemma vrun_append: "vrun (es @ fs) v = vrun fs (vrun es v)"
  by (induction es arbitrary: v) simp_all

text \<open>
  C3. Let the component be in a state it can reach, with mount \<open>g2\<close> the current one and
  the construction of an earlier mount \<open>g1\<close> still pending. When that construction
  resolves with a new instance \<open>i1\<close>, the instance is finalized, and neither the reference
  to the live instance nor the published instance changes: \<open>onView\<close> is not called. Through
  all later events (none of which constructs \<open>i1\<close> again) \<open>i1\<close> is never published. When
  the construction of \<open>g2\<close> resolves, before or after that of \<open>g1\<close>, the published instance
  is the one of \<open>g2\<close>.
\<close>

theorem last_mount_wins:
  assumes reach: "v = vrun evs vega_init"
    and m2: "cur v = Some g2" and older: "g1 < g2" and pending: "g1 \<in> set (awaiting v)"
    and fresh: "Some i1 \<notin> set (onView_log v)" "Some i1 \<notin> constructs ` set es"
  shows "finalized (vstep (Resolved g1 (Some i1)) v) = finalized v @ [i1] \<and>
         published (vstep (Resolved g1 (Some i1)) v) = published v \<and>
         viewRef (vstep (Resolved g1 (Some i1)) v) = viewRef v \<and>
         onView_log (vstep (Resolved g1 (Some i1)) v) = onView_log v \<and>
         Some i1 \<notin> set (onView_log (vrun es (vstep (Resolved g1 (Some i1)) v))) \<and>
         published (vrun es (vstep (Resolved g1 (Some i1)) v)) \<noteq> Some i1 \<and>
         (g2 \<in> set (awaiting v) \<longrightarrow>
            published (vstep (Resolved g2 i2) (vstep (Resolved g1 (Some i1)) v)) = i2 \<and>
            published (vstep (Resolved g1 (Some i1)) (vstep (Resolved g2 i2) v)) = i2)"
proof -
  have i: "vega_inv v" unfolding reach by (rule vega_inv_run [OF vega_inv_init])
  from i m2 have g2: "g2 < runs v" "\<not> canceled v g2" by (auto simp add: vega_inv_def)
  from i m2 older g2 have c1: "canceled v g1" by (auto simp add: vega_inv_def)
  let ?v' = "vstep (Resolved g1 (Some i1)) v"
  have v': "?v' = v\<lparr>awaiting := removeAll g1 (awaiting v), finalized := finalized v @ [i1]\<rparr>"
    by (rule stale_resolved [OF c1 pending])
  have i': "vega_inv ?v'" by (rule vega_inv_step [OF i])
  have a: "finalized ?v' = finalized v @ [i1]" "published ?v' = published v"
    "viewRef ?v' = viewRef v" "onView_log ?v' = onView_log v"
    unfolding v' by simp_all
  have never: "Some i1 \<notin> set (onView_log (vrun es ?v'))"
    using log_run [of i1 es ?v'] fresh a(4) by auto
  have "vega_inv (vrun es ?v')" by (rule vega_inv_run [OF i'])
  then have notpub: "published (vrun es ?v') \<noteq> Some i1"
    using never published_in_log by blast
  have later: "published (vstep (Resolved g2 i2) ?v') = i2
      \<and> published (vstep (Resolved g1 (Some i1)) (vstep (Resolved g2 i2) v)) = i2"
    if w: "g2 \<in> set (awaiting v)"
  proof
    have "\<not> canceled ?v' g2" "g2 \<in> set (awaiting ?v')"
      unfolding v' using g2 w older by simp_all
    then show "published (vstep (Resolved g2 i2) ?v') = i2"
      using current_resolved by blast
  next
    let ?w = "vstep (Resolved g2 i2) v"
    have w2: "?w = onView i2 (v\<lparr>awaiting := removeAll g2 (awaiting v), viewRef := i2\<rparr>)"
      using g2 w by (simp add: run_resolved_def)
    have "canceled ?w g1" "g1 \<in> set (awaiting ?w)"
      unfolding w2 using c1 pending older by simp_all
    then have "vstep (Resolved g1 (Some i1)) ?w =
        ?w\<lparr>awaiting := removeAll g1 (awaiting ?w), finalized := finalized ?w @ [i1]\<rparr>"
      by (rule stale_resolved)
    then have "published (vstep (Resolved g1 (Some i1)) ?w) = published ?w" by simp
    then show "published (vstep (Resolved g1 (Some i1)) ?w) = i2" unfolding w2 by simp
  qed
  show ?thesis using a never notpub later by blast
qed

theorem last_mount_wins_witness:
  "finalized (vrun [Mount (Some (VegaLiteSpec ''A'')), Mount (Some (VegaLiteSpec ''B'')),
                    Resolved 0 (Some 7)] vega_init) = [7] \<and>
   published (vrun [Mount (Some (VegaLiteSpec ''A'')), Mount (Some (VegaLiteSpec ''B'')),
                    Resolved 0 (Some 7), Resolved 1 (Some 8)] vega_init) = Some 8 \<and>
   published (vrun [Mount (Some (VegaLiteSpec ''A'')), Mount (Some (VegaLiteSpec ''B'')),
                    Resolved 1 (Some 8), Resolved 0 (Some 7)] vega_init) = Some 8"
proof -
  define evs where "evs = [Mount (Some (VegaLiteSpec ''A'')), Mount (Some (VegaLiteSpec ''B''))]"
  define v where "v = vrun evs vega_init"
  have f: "cur v = Some 1" "awaiting v = [0, 1]" "onView_log v = [None]" "finalized v = []"
    by (simp_all add: v_def evs_def vega_init_def effect_run_def effect_cleanup_def
        finalize_current_def onView_def Let_def)
  have h: "(0::nat) < 1" "0 \<in> set (awaiting v)" "Some 7 \<notin> set (onView_log v)"
    "Some 7 \<notin> constructs ` set [Resolved 1 (Some 8)]" "1 \<in> set (awaiting v)"
    by (simp_all add: f)
  have r: "vrun (evs @ [Resolved 0 (Some 7)]) vega_init = vstep (Resolved 0 (Some 7)) v"
    "vrun (evs @ [Resolved 0 (Some 7), Resolved 1 (Some 8)]) vega_init =
       vstep (Resolved 1 (Some 8)) (vstep (Resolved 0 (Some 7)) v)"
    "vrun (evs @ [Resolved 1 (Some 8), Resolved 0 (Some 7)]) vega_init =
       vstep (Resolved 0 (Some 7)) (vstep (Resolved 1 (Some 8)) v)"
    unfolding vrun_append v_def by (simp_all del: vstep.simps)
  from last_mount_wins [OF v_def f(1) h(1) h(2) h(3) h(4), of "Some 8"] h(5)
  have "finalized (vstep (Resolved 0 (Some 7)) v) = finalized v @ [7]"
    and "published (vstep (Resolved 1 (Some 8)) (vstep (Resolved 0 (Some 7)) v)) = Some 8"
    and "published (vstep (Resolved 0 (Some 7)) (vstep (Resolved 1 (Some 8)) v)) = Some 8"
    by blast+
  then show ?thesis using r unfolding evs_def by (simp only: f append.simps)
qed

end
